theory Spec2Isabelle
  imports Complex_Main
begin

section \<open>Data model\<close>

text \<open>
  The notebook labels every city with one of three region strings: East, Central and West
  in the specification's words, in the order of the list handed to \<open>np.random.choice\<close>. They
  are only ever compared for equality, so they are a datatype here. Python floats are
  modelled as real numbers (rounding is idealised).
\<close>

datatype region = East | Central | West

text \<open>The eight covariate columns selected into \<open>X\<close>, and a full row of \<open>df\<close>.\<close>

record covs =
  gdp_pc :: real
  net_access :: real
  edu_exp :: real
  med_exp :: real
  urban_ratio :: real
  policy_index :: real
  infra_score :: real
  unemp_rate :: real

record row = covs +
  city :: string
  year :: int
  region :: region
  rural_income :: real
  urban_income :: real

section \<open>The random-sampling facility\<close>

text \<open>
  \<open>np.random\<close> is a library: its global generator state is an abstract type \<open>'s\<close> and its
  entry points are parameters. A scalar draw names the distribution asked for.
\<close>

datatype dist = Normal real real | Uniform real real

record 's np_random =
  seed :: "nat \<Rightarrow> 's"
  choice :: "region list \<Rightarrow> nat \<Rightarrow> real list \<Rightarrow> 's \<Rightarrow> region list \<times> 's"
  draw :: "dist \<Rightarrow> 's \<Rightarrow> real \<times> 's"

definition normal :: "('s, 'x) np_random_scheme \<Rightarrow> real \<Rightarrow> real \<Rightarrow> 's \<Rightarrow> real \<times> 's" where
  "normal rng loc scale = draw rng (Normal loc scale)"

definition uniform :: "('s, 'x) np_random_scheme \<Rightarrow> real \<Rightarrow> real \<Rightarrow> 's \<Rightarrow> real \<times> 's" where
  "uniform rng low high = draw rng (Uniform low high)"

text \<open>\<open>np.clip(x, lo, hi)\<close> is \<open>minimum(maximum(x, lo), hi)\<close>.\<close>

definition clip :: "real \<Rightarrow> real \<Rightarrow> real \<Rightarrow> real" where
  "clip x lo hi = min (max x lo) hi"

section \<open>Step 1: the generator\<close>

text \<open>The body of the inner loop: ten draws in source order, then the appended row.\<close>

definition gen_row :: "('s, 'x) np_random_scheme \<Rightarrow> string \<Rightarrow> int \<Rightarrow> region \<Rightarrow> 's \<Rightarrow> row \<times> 's" where
  "gen_row rng cty yr reg g0 =
    (let (gdp, g1) = normal rng (if reg = East then 80000 else if reg = Central then 50000 else 30000) 5000 g0;
         (na_raw, g2) = normal rng (if reg = East then 0.9 else 0.75) 0.1 g1;
         na = clip na_raw 0.5 1.0;
         (edu, g3) = normal rng 15000 2000 g2;
         (med, g4) = normal rng 10000 1500 g3;
         (ur_raw, g5) = normal rng (if reg = East then 0.7 else 0.6) 0.1 g4;
         ur = clip ur_raw 0.3 0.95;
         (pol, g6) = uniform rng 0 1 g5;
         (eps, g7) = normal rng 0 5 g6;
         infra = na * 50 + ur * 30 + eps;
         (un_raw, g8) = normal rng 0.08 0.03 g7;
         un = clip un_raw 0.03 0.15;
         (u1, g9) = uniform rng 0.3 0.5 g8;
         rural = gdp * u1 + pol * 5000 - un * 2000;
         (u2, g10) = uniform rng 0.6 0.9 g9;
         urban = gdp * u2
     in (\<lparr>gdp_pc = gdp, net_access = na, edu_exp = edu, med_exp = med, urban_ratio = ur,
          policy_index = pol, infra_score = infra, unemp_rate = un,
          city = cty, year = yr, region = reg, rural_income = rural, urban_income = urban\<rparr>, g10))"

text \<open>\<open>range(2018, 2023)\<close>.\<close>

definition years :: "int list" where
  "years = [2018..2022]"

text \<open>\<open>for year in range(2018, 2023)\<close>, appending one row per year.\<close>

fun year_loop :: "('s, 'x) np_random_scheme \<Rightarrow> string \<Rightarrow> region \<Rightarrow> int list \<Rightarrow> 's \<Rightarrow> row list \<times> 's" where
  "year_loop rng cty reg [] g = ([], g)"
| "year_loop rng cty reg (yr # yrs) g =
    (let (r, g1) = gen_row rng cty yr reg g;
         (rs, g2) = year_loop rng cty reg yrs g1
     in (r # rs, g2))"

text \<open>\<open>for city, region in zip(cities, regions)\<close>.\<close>

fun city_loop :: "('s, 'x) np_random_scheme \<Rightarrow> (string \<times> region) list \<Rightarrow> 's \<Rightarrow> row list \<times> 's" where
  "city_loop rng [] g = ([], g)"
| "city_loop rng ((cty, reg) # crs) g =
    (let (rs1, g1) = year_loop rng cty reg years g;
         (rs2, g2) = city_loop rng crs g1
     in (rs1 @ rs2, g2))"

text \<open>Python's \<open>str\<close> of a non-negative integer, for \<open>f"City_{i+1}"\<close>.\<close>

definition digit_char :: "nat \<Rightarrow> char" where
  "digit_char d = char_of (48 + d)"

function str_nat :: "nat \<Rightarrow> string" where
  "str_nat n = (if n < 10 then [digit_char n] else str_nat (n div 10) @ [digit_char (n mod 10)])"
  by pat_completeness auto
termination
  by (relation "measure id") auto

definition cities :: "string list" where
  "cities = map (\<lambda>i. ''City_'' @ str_nat (i + 1)) [0..<100]"

text \<open>
  The whole first cell: seed the global generator, draw the 100 region labels, run the
  loops. The result is the table \<open>df\<close> and the generator state left behind.
\<close>

definition generate :: "('s, 'x) np_random_scheme \<Rightarrow> 's \<Rightarrow> row list \<times> 's" where
  "generate rng g_init =
    (let g0 = seed rng 42;
         (regions, g1) = choice rng [East, Central, West] 100 [0.4, 0.3, 0.3] g0
     in city_loop rng (zip cities regions) g1)"

section \<open>The learning library\<close>

text \<open>
  scikit-learn, the boosting libraries, \<open>time.time\<close>, \<open>np.sqrt\<close> and \<open>np.mean\<close> of a
  difference of arrays (\<open>mean_difference\<close>) are libraries as well:
  black boxes taken as parameters. Every call that may consult the global generator
  threads its state \<open>'s\<close>; the clock has its own state \<open>'t\<close>. A fitted scaler is a value of
  \<open>'sc\<close>, a fitted model a value of \<open>'m\<close>. A function of the record gives what the call
  returns when it returns.
\<close>

datatype estimator =
  Ridge
| RandomForestRegressor "nat option"
| XGBRegressor nat
| CatBoostRegressor

record ('s, 't, 'sc, 'm) sklearn =
  train_test_split ::
    "covs list \<Rightarrow> real list \<Rightarrow> real \<Rightarrow> nat option \<Rightarrow> 's \<Rightarrow>
      (covs list \<times> covs list \<times> real list \<times> real list) \<times> 's"
  scaler_fit :: "covs list \<Rightarrow> 'sc"
  scaler_transform :: "'sc \<Rightarrow> covs list \<Rightarrow> real list list"
  fit :: "estimator \<Rightarrow> real list list \<Rightarrow> real list \<Rightarrow> 's \<Rightarrow> 'm \<times> 's"
  predict :: "'m \<Rightarrow> real list list \<Rightarrow> real list"
  score :: "'m \<Rightarrow> real list list \<Rightarrow> real list \<Rightarrow> real"
  mean_squared_error :: "real list \<Rightarrow> real list \<Rightarrow> real"
  r2_score :: "real list \<Rightarrow> real list \<Rightarrow> real"
  np_sqrt :: "real \<Rightarrow> real"
  mean_difference :: "real list \<Rightarrow> real list \<Rightarrow> real"
  time_time :: "'t \<Rightarrow> real \<times> 't"

text \<open>
  A library call may raise instead of returning. In the regional loop a raise cuts the
  loop short, so for its three calls the record is extended by what each call raises on
  given arguments, if anything.
\<close>

datatype error = ValueError | OtherError

record ('s, 't, 'sc, 'm) fallible = "('s, 't, 'sc, 'm) sklearn" +
  split_raises :: "covs list \<Rightarrow> real list \<Rightarrow> real \<Rightarrow> nat option \<Rightarrow> 's \<Rightarrow> error option"
  fit_raises :: "estimator \<Rightarrow> real list list \<Rightarrow> real list \<Rightarrow> 's \<Rightarrow> error option"
  score_raises :: "'m \<Rightarrow> real list list \<Rightarrow> real list \<Rightarrow> error option"

text \<open>A data frame of covariates handed to an estimator is read as an array, column by column.\<close>

definition to_array :: "covs list \<Rightarrow> real list list" where
  "to_array fr = map (\<lambda>c. [gdp_pc c, net_access c, edu_exp c, med_exp c, urban_ratio c,
                            policy_index c, infra_score c, unemp_rate c]) fr"

section \<open>Data frames as objects\<close>

text \<open>
  The covariate frames are objects: a variable holds an address into a store, so that an
  in-place column update is seen through every variable bound to the same object. Addresses
  are only ever obtained from \<open>alloc\<close>, so a variable never dangles.
\<close>

type_synonym addr = nat
type_synonym store = "covs list list"

definition frame :: "store \<Rightarrow> addr \<Rightarrow> covs list" where
  "frame h a = h ! a"

definition alloc :: "covs list \<Rightarrow> store \<Rightarrow> addr \<times> store" where
  "alloc fr h = (length h, h @ [fr])"

text \<open>\<open>a.copy()\<close>: a new object with the same contents.\<close>

definition df_copy :: "addr \<Rightarrow> store \<Rightarrow> addr \<times> store" where
  "df_copy a h = alloc (frame h a) h"

text \<open>\<open>a['policy_index'] += d\<close>: the column of the object at \<open>a\<close> is updated in place.\<close>

definition iadd_policy_index :: "addr \<Rightarrow> real \<Rightarrow> store \<Rightarrow> store" where
  "iadd_policy_index a d h = h[a := map (\<lambda>c. c\<lparr>policy_index := policy_index c + d\<rparr>) (frame h a)]"

section \<open>Step 2: split and standardise\<close>

text \<open>
  The variables bound by the second cell. The notebook's \<open>X\<close> and \<open>y\<close> are the fields
  \<open>X_all\<close> and \<open>y_all\<close>. \<open>scaler.fit_transform(X_train)\<close> fits the scaler on \<open>X_train\<close> and
  transforms \<open>X_train\<close> with it.
\<close>

record 'sc env =
  frames :: store
  X_all :: addr
  y_all :: "real list"
  X_train :: addr
  X_test :: addr
  y_train :: "real list"
  y_test :: "real list"
  scaler :: 'sc
  X_train_scaled :: "real list list"
  X_test_scaled :: "real list list"

definition cell2 :: "('s, 't, 'sc, 'm, 'x) sklearn_scheme \<Rightarrow> row list \<Rightarrow> 's \<Rightarrow> 'sc env \<times> 's" where
  "cell2 lib df g =
    (let (xa, h1) = alloc (map covs.truncate df) [];
         ys = map rural_income df;
         ((xtr, xte, ytr, yte), g1) = train_test_split lib (frame h1 xa) ys 0.2 (Some 0) g;
         (tra, h2) = alloc xtr h1;
         (tea, h3) = alloc xte h2;
         sc = scaler_fit lib (frame h3 tra);
         trs = scaler_transform lib sc (frame h3 tra);
         tes = scaler_transform lib sc (frame h3 tea)
     in (\<lparr>frames = h3, X_all = xa, y_all = ys, X_train = tra, X_test = tea, y_train = ytr, y_test = yte,
          scaler = sc, X_train_scaled = trs, X_test_scaled = tes\<rparr>, g1))"

section \<open>Step 3: train and evaluate\<close>

record report =
  rmse :: real
  r2 :: real
  train_time :: real

definition train_and_evaluate ::
  "('s, 't, 'sc, 'm, 'x) sklearn_scheme \<Rightarrow> 'sc env \<Rightarrow> estimator \<Rightarrow> 's \<times> 't \<Rightarrow> report \<times> 's \<times> 't" where
  "train_and_evaluate lib e model gt =
    (let (g, t) = gt;
         (start, t1) = time_time lib t;
         (m, g1) = fit lib model (X_train_scaled e) (y_train e) g;
         y_pred = predict lib m (X_test_scaled e);
         (end, t2) = time_time lib t1
     in (\<lparr>rmse = np_sqrt lib (mean_squared_error lib (y_test e) y_pred),
          r2 = r2_score lib (y_test e) y_pred,
          train_time = end - start\<rparr>, g1, t2))"

definition cell3 ::
  "('s, 't, 'sc, 'm, 'x) sklearn_scheme \<Rightarrow> 'sc env \<Rightarrow> 's \<times> 't \<Rightarrow> report list \<times> 's \<times> 't" where
  "cell3 lib e gt0 =
    (let (r1, gt1) = train_and_evaluate lib e Ridge gt0;
         (r2, gt2) = train_and_evaluate lib e (RandomForestRegressor (Some 100)) gt1;
         (r3, gt3) = train_and_evaluate lib e (XGBRegressor 100) gt2;
         (r4, gt4) = train_and_evaluate lib e CatBoostRegressor gt3
     in ([r1, r2, r3, r4], gt4))"

text \<open>One run of the notebook up to the benchmark, from whatever state the process starts in.\<close>

definition benchmark_run ::
  "('s, 'y) np_random_scheme \<Rightarrow> ('s, 't, 'sc, 'm, 'x) sklearn_scheme \<Rightarrow> 's \<Rightarrow> 't \<Rightarrow> report list" where
  "benchmark_run rng lib g_init t_init =
    (let (df, g1) = generate rng g_init;
         (e, g2) = cell2 lib df g1
     in fst (cell3 lib e (g2, t_init)))"

section \<open>Step 5: one model per region\<close>

text \<open>\<open>Series.unique()\<close>: the distinct values in order of first appearance.\<close>

fun unique :: "'a list \<Rightarrow> 'a list" where
  "unique [] = []"
| "unique (x # xs) = x # unique (filter (\<lambda>z. z \<noteq> x) xs)"

text \<open>
  The loop prints one line per region. The result is the lines printed and how the loop
  ended: with the exception that escaped from a library call, or with the generator state
  left behind.
\<close>

fun region_loop ::
  "('s, 't, 'sc, 'm, 'x) fallible_scheme \<Rightarrow> row list \<Rightarrow> region list \<Rightarrow> 's \<Rightarrow>
     (region \<times> real) list \<times> (error + 's)" where
  "region_loop lib df [] g = ([], Inr g)"
| "region_loop lib df (reg # regs) g =
    (let sub_df = filter (\<lambda>r. region r = reg) df;
         X_r = map covs.truncate sub_df;
         y_r = map rural_income sub_df
     in case split_raises lib X_r y_r 0.2 None g of
          Some err \<Rightarrow> ([], Inl err)
        | None \<Rightarrow>
           (let ((X_train_r, X_test_r, y_train_r, y_test_r), g1) = train_test_split lib X_r y_r 0.2 None g
            in case fit_raises lib (RandomForestRegressor None) (to_array X_train_r) y_train_r g1 of
                 Some err \<Rightarrow> ([], Inl err)
               | None \<Rightarrow>
                  (let (model_r, g2) = fit lib (RandomForestRegressor None) (to_array X_train_r) y_train_r g1
                   in case score_raises lib model_r (to_array X_test_r) y_test_r of
                        Some err \<Rightarrow> ([], Inl err)
                      | None \<Rightarrow>
                         (let line = (reg, score lib model_r (to_array X_test_r) y_test_r);
                              (lines, outcome) = region_loop lib df regs g2
                          in (line # lines, outcome)))))"

definition cell5 ::
  "('s, 't, 'sc, 'm, 'x) fallible_scheme \<Rightarrow> row list \<Rightarrow> 's \<Rightarrow> (region \<times> real) list \<times> (error + 's)" where
  "cell5 lib df g = region_loop lib df (unique (map region df)) g"





section \<open>Step 6: the policy counterfactual\<close>

record ('sc, 'm) sim = "'sc env" +
  X_sim :: addr
  X_sim_scaled :: "real list list"
  model_final :: 'm
  y_before :: "real list"
  y_after :: "real list"
  mean_change :: real

definition cell6 :: "('s, 't, 'sc, 'm, 'x) sklearn_scheme \<Rightarrow> 'sc env \<Rightarrow> 's \<Rightarrow> ('sc, 'm) sim \<times> 's" where
  "cell6 lib e g =
    (let (sa, h1) = df_copy (X_test e) (frames e);
         h2 = iadd_policy_index sa 0.2 h1;
         ss = scaler_transform lib (scaler e) (frame h2 sa);
         (mf, g1) = fit lib (RandomForestRegressor None) (X_train_scaled e) (y_train e) g;
         yb = predict lib mf (X_test_scaled e);
         ya = predict lib mf ss
     in (env.extend (e\<lparr>frames := h2\<rparr>)
          (sim.fields sa ss mf yb ya (mean_difference lib ya yb)), g1))"

section \<open>Observing the draws of a run\<close>

text \<open>
  Wrapping the generator so that every scalar draw is written down, request and returned
  value, gives the transcript of a run. Seeding starts a new transcript.
\<close>

definition recording :: "('s, 'x) np_random_scheme \<Rightarrow> ((dist \<times> real) list \<times> 's) np_random" where
  "recording rng =
    \<lparr>seed = (\<lambda>k. ([], seed rng k)),
     choice = (\<lambda>a n p (tr, g). (fst (choice rng a n p g), (tr, snd (choice rng a n p g)))),
     draw = (\<lambda>d (tr, g). (fst (draw rng d g), (tr @ [(d, fst (draw rng d g))], snd (draw rng d g))))\<rparr>"

definition row_transcript ::
  "('s, 'x) np_random_scheme \<Rightarrow> string \<Rightarrow> int \<Rightarrow> region \<Rightarrow> 's \<Rightarrow> (dist \<times> real) list" where
  "row_transcript rng cty yr reg g = fst (snd (gen_row (recording rng) cty yr reg ([], g)))"

definition transcript :: "('s, 'x) np_random_scheme \<Rightarrow> 's \<Rightarrow> (dist \<times> real) list" where
  "transcript rng g_init = fst (snd (generate (recording rng) ([], g_init)))"

text \<open>The ten draws made for row number \<open>i\<close> of the table.\<close>

definition draws_of_row :: "('s, 'x) np_random_scheme \<Rightarrow> 's \<Rightarrow> nat \<Rightarrow> (dist \<times> real) list" where
  "draws_of_row rng g_init i = take 10 (drop (10 * i) (transcript rng g_init))"

text \<open>Rows and transcript in step: each row owns the next ten entries.\<close>

fun aligned :: "(row \<Rightarrow> (dist \<times> real) list \<Rightarrow> bool) \<Rightarrow> row list \<Rightarrow> (dist \<times> real) list \<Rightarrow> bool" where
  "aligned P [] tr = (tr = [])"
| "aligned P (r # rs) tr = (10 \<le> length tr \<and> P r (take 10 tr) \<and> aligned P rs (drop 10 tr))"

section \<open>What the library promises\<close>

text \<open>\<open>np.random.choice(a, size=n, p=p)\<close> returns \<open>n\<close> labels.\<close>

definition choice_sized :: "('s, 'x) np_random_scheme \<Rightarrow> bool" where
  "choice_sized rng = (\<forall>a n p g. length (fst (choice rng a n p g)) = n)"

text \<open>\<open>np.random.uniform(low, high)\<close> returns a value of \<open>[low, high)\<close>.\<close>

definition uniform_in_range :: "('s, 'x) np_random_scheme \<Rightarrow> bool" where
  "uniform_in_range rng =
    (\<forall>low high g. low < high \<longrightarrow> low \<le> fst (uniform rng low high g) \<and> fst (uniform rng low high g) < high)"

text \<open>\<open>train_test_split\<close> returns samples of the frame it was given, each with its own target.\<close>

definition split_selects :: "('s, 't, 'sc, 'm, 'x) sklearn_scheme \<Rightarrow> bool" where
  "split_selects lib =
    (\<forall>xs ys ts rs g. length ys = length xs \<longrightarrow>
      (case fst (train_test_split lib xs ys ts rs g) of (xtr, xte, ytr, yte) \<Rightarrow>
        set (zip xtr ytr) \<subseteq> set (zip xs ys) \<and> set (zip xte yte) \<subseteq> set (zip xs ys) \<and>
        length ytr = length xtr \<and> length yte = length xte))"


section \<open>The claim about region-conditioned normal draws, in its own words\<close>

fun mean_of :: "dist \<Rightarrow> real option" where
  "mean_of (Normal loc scale) = Some loc"
| "mean_of (Uniform low high) = None"

text \<open>
  A covariate, given by the request made for it in each region, is a normal draw whose
  mean depends on the region.
\<close>

definition region_conditioned_normal :: "(region \<Rightarrow> dist) \<Rightarrow> bool" where
  "region_conditioned_normal req =
    (mean_of (req East) \<noteq> None \<and> mean_of (req Central) \<noteq> None \<and> mean_of (req West) \<noteq> None \<and>
     \<not> (mean_of (req East) = mean_of (req Central) \<and> mean_of (req Central) = mean_of (req West)))"

section \<open>Stand-ins for the libraries, for concrete runs\<close>

text \<open>
  Small deterministic functions of the right types, on which the notebook can be run by
  hand. They are not the libraries' algorithms: the generator walks through a few fixed
  values, the split holds out the first fifth of the rows, the scaler centres
  \<open>policy_index\<close>, and a fitted model is the mean of its targets.
\<close>

definition demo_rng :: "nat np_random" where
  "demo_rng =
    \<lparr>seed = (\<lambda>k. k),
     choice = (\<lambda>a n p g. (map (\<lambda>i. a ! ((g + i) mod length a)) [0..<n], g + n)),
     draw = (\<lambda>d g. (case d of
               Normal loc scale \<Rightarrow> loc + scale * ((real ((7 * g + 3) mod 11) - 5) / 2)
             | Uniform low high \<Rightarrow> low + (high - low) * (real ((3 * g + 1) mod 8) / 8), Suc g))\<rparr>"

text \<open>The request made for draw number \<open>k\<close> of a row, by region, under the stand-in generator.\<close>

definition demo_request :: "nat \<Rightarrow> region \<Rightarrow> dist" where
  "demo_request k reg = fst (row_transcript demo_rng ''City_1'' 2018 reg 0 ! k)"

definition demo_lib :: "(nat, nat, real, real) sklearn" where
  "demo_lib =
    \<lparr>train_test_split = (\<lambda>xs ys ts rs g.
        ((drop ((length xs + 4) div 5) xs, take ((length xs + 4) div 5) xs,
          drop ((length xs + 4) div 5) ys, take ((length xs + 4) div 5) ys),
         (case rs of None \<Rightarrow> Suc g | Some k \<Rightarrow> g))),
     scaler_fit = (\<lambda>xs. sum_list (map policy_index xs) / real (length xs)),
     scaler_transform = (\<lambda>sc xs. map (\<lambda>c. [gdp_pc c, policy_index c - sc]) xs),
     fit = (\<lambda>est xs ys g. (sum_list ys / real (length ys), Suc g)),
     predict = (\<lambda>m xs. map (\<lambda>x. m + sum_list x) xs),
     score = (\<lambda>m xs ys. 1 - sum_list (map (\<lambda>v. (v - m) * (v - m)) ys)),
     mean_squared_error = (\<lambda>a b. sum_list (map2 (\<lambda>u v. (u - v) * (u - v)) a b) / real (length a)),
     r2_score = (\<lambda>a b. 1 - sum_list (map2 (\<lambda>u v. (u - v) * (u - v)) a b)),
     np_sqrt = (\<lambda>v. (v + 1) / 2),
     mean_difference = (\<lambda>a b. sum_list (map2 (\<lambda>u v. u - v) a b) / real (length a)),
     time_time = (\<lambda>t. (real t, Suc t))\<rparr>"

definition demo_row :: "string \<Rightarrow> region \<Rightarrow> real \<Rightarrow> real \<Rightarrow> row" where
  "demo_row cty reg pol inc =
    \<lparr>gdp_pc = 50000, net_access = 0.8, edu_exp = 15000, med_exp = 10000, urban_ratio = 0.6,
     policy_index = pol, infra_score = 58, unemp_rate = 0.08,
     city = cty, year = 2018, region = reg, rural_income = inc, urban_income = 30000\<rparr>"

definition demo_df :: "row list" where
  "demo_df = [demo_row ''City_1'' East 0.5 20000, demo_row ''City_2'' West 0.25 21000,
              demo_row ''City_3'' East 0.75 22000, demo_row ''City_4'' Central 0.5 23000,
              demo_row ''City_5'' West 0.5 24000]"

text \<open>
  The stand-in library with its failures: the split raises when it would leave the
  training part empty, fitting and scoring raise on an empty array.
\<close>

definition demo_fallible :: "(nat, nat, real, real) fallible" where
  "demo_fallible =
    sklearn.extend demo_lib
      (fallible.fields
        (\<lambda>xs ys ts rs g. if drop ((length xs + 4) div 5) xs = [] then Some ValueError else None)
        (\<lambda>est a ys g. if a = [] then Some ValueError else None)
        (\<lambda>m a ys. if a = [] then Some ValueError else None))"

text \<open>The five-row table without its only Central row: two rows in each region left.\<close>

definition demo_df_pairs :: "row list" where
  "demo_df_pairs = filter (\<lambda>r. region r \<noteq> Central) demo_df"

text \<open>The same table with another first row: the row the stand-in split holds out.\<close>

definition demo_df2 :: "row list" where
  "demo_df2 = demo_row ''City_1'' East 0.125 19000 # tl demo_df"

section \<open>Auxiliary facts\<close>

lemma draw_recording:
  "draw (recording rng) d (tr, g) = (fst (draw rng d g), (tr @ [(d, fst (draw rng d g))], snd (draw rng d g)))"
  by (simp add: recording_def)

lemma gen_row_recording:
  "gen_row (recording rng) cty yr reg (tr, g) =
    (fst (gen_row rng cty yr reg g), (tr @ row_transcript rng cty yr reg g, snd (gen_row rng cty yr reg g)))"
  by (simp add: row_transcript_def gen_row_def normal_def uniform_def draw_recording split_beta Let_def)

lemma length_row_transcript: "length (row_transcript rng cty yr reg g) = 10"
  by (simp add: row_transcript_def gen_row_def normal_def uniform_def draw_recording split_beta Let_def)

lemma gen_row_keys:
  "city (fst (gen_row rng cty yr reg g)) = cty \<and> year (fst (gen_row rng cty yr reg g)) = yr
   \<and> region (fst (gen_row rng cty yr reg g)) = reg"
  by (simp add: gen_row_def split_beta Let_def)

lemma aligned_length: "aligned P rs tr \<Longrightarrow> length tr = 10 * length rs"
proof (induction rs arbitrary: tr)
  case Nil
  then show ?case by simp
next
  case (Cons r rs)
  from Cons.prems have "aligned P rs (drop 10 tr)" and len: "10 \<le> length tr"
    by simp_all
  from Cons.IH [OF this(1)] len show ?case by simp
qed

lemma aligned_append:
  "aligned P rs1 t1 \<Longrightarrow> aligned P rs2 t2 \<Longrightarrow> aligned P (rs1 @ rs2) (t1 @ t2)"
proof (induction rs1 arbitrary: t1)
  case Nil
  then show ?case by simp
next
  case (Cons r rs1)
  then show ?case by simp
qed

lemma aligned_nth:
  "aligned P rs tr \<Longrightarrow> i < length rs \<Longrightarrow> P (rs ! i) (take 10 (drop (10 * i) tr))"
proof (induction rs arbitrary: i tr)
  case Nil
  then show ?case by simp
next
  case (Cons r rs)
  show ?case
  proof (cases i)
    case 0
    with Cons.prems show ?thesis by simp
  next
    case (Suc j)
    have "drop (10 * Suc j) tr = drop (10 * j) (drop 10 tr)"
      by (simp add: add.commute)
    moreover have "P (rs ! j) (take 10 (drop (10 * j) (drop 10 tr)))"
      using Cons.IH [of "drop 10 tr" j] Cons.prems Suc by simp
    ultimately show ?thesis using Suc by simp
  qed
qed

lemma year_loop_recording:
  assumes P: "\<And>cty yr reg g. P (fst (gen_row rng cty yr reg g)) (row_transcript rng cty yr reg g)"
  shows "\<exists>tr'. year_loop (recording rng) cty reg yrs (tr, g) =
           (fst (year_loop rng cty reg yrs g), (tr @ tr', snd (year_loop rng cty reg yrs g)))
         \<and> aligned P (fst (year_loop rng cty reg yrs g)) tr'"
proof (induction yrs arbitrary: tr g)
  case Nil
  then show ?case by simp
next
  case (Cons yr yrs)
  let ?row = "fst (gen_row rng cty yr reg g)"
  let ?t1 = "row_transcript rng cty yr reg g"
  let ?g1 = "snd (gen_row rng cty yr reg g)"
  obtain tr2 where rest:
    "year_loop (recording rng) cty reg yrs (tr @ ?t1, ?g1) =
       (fst (year_loop rng cty reg yrs ?g1), ((tr @ ?t1) @ tr2, snd (year_loop rng cty reg yrs ?g1)))"
    and al: "aligned P (fst (year_loop rng cty reg yrs ?g1)) tr2"
    using Cons.IH by blast
  have "year_loop (recording rng) cty reg (yr # yrs) (tr, g) =
          (fst (year_loop rng cty reg (yr # yrs) g), (tr @ (?t1 @ tr2), snd (year_loop rng cty reg (yr # yrs) g)))"
    by (simp add: gen_row_recording rest split_beta)
  moreover have "aligned P (fst (year_loop rng cty reg (yr # yrs) g)) (?t1 @ tr2)"
    using al P by (simp add: split_beta length_row_transcript)
  ultimately show ?case by blast
qed

lemma city_loop_recording:
  assumes P: "\<And>cty yr reg g. P (fst (gen_row rng cty yr reg g)) (row_transcript rng cty yr reg g)"
  shows "\<exists>tr'. city_loop (recording rng) crs (tr, g) =
           (fst (city_loop rng crs g), (tr @ tr', snd (city_loop rng crs g)))
         \<and> aligned P (fst (city_loop rng crs g)) tr'"
proof (induction crs arbitrary: tr g)
  case Nil
  then show ?case by simp
next
  case (Cons cr crs)
  obtain cty reg where cr: "cr = (cty, reg)" by (cases cr)
  let ?g1 = "snd (year_loop rng cty reg years g)"
  obtain t1 where first:
    "year_loop (recording rng) cty reg years (tr, g) =
       (fst (year_loop rng cty reg years g), (tr @ t1, ?g1))"
    and al1: "aligned P (fst (year_loop rng cty reg years g)) t1"
    using year_loop_recording [where P = P and rng = rng, OF P] by blast
  obtain t2 where rest:
    "city_loop (recording rng) crs (tr @ t1, ?g1) =
       (fst (city_loop rng crs ?g1), ((tr @ t1) @ t2, snd (city_loop rng crs ?g1)))"
    and al2: "aligned P (fst (city_loop rng crs ?g1)) t2"
    using Cons.IH by blast
  have "city_loop (recording rng) (cr # crs) (tr, g) =
          (fst (city_loop rng (cr # crs) g), (tr @ (t1 @ t2), snd (city_loop rng (cr # crs) g)))"
    by (simp add: cr first rest split_beta)
  moreover have "aligned P (fst (city_loop rng (cr # crs) g)) (t1 @ t2)"
    using al1 al2 by (simp add: cr split_beta aligned_append)
  ultimately show ?case by blast
qed

lemma generate_recording:
  assumes P: "\<And>cty yr reg g. P (fst (gen_row rng cty yr reg g)) (row_transcript rng cty yr reg g)"
  shows "aligned P (fst (generate rng g_init)) (transcript rng g_init)"
proof -
  let ?g0 = "seed rng 42"
  let ?regs = "fst (choice rng [East, Central, West] 100 [0.4, 0.3, 0.3] ?g0)"
  let ?g1 = "snd (choice rng [East, Central, West] 100 [0.4, 0.3, 0.3] ?g0)"
  obtain t where run:
    "city_loop (recording rng) (zip cities ?regs) ([], ?g1) =
       (fst (city_loop rng (zip cities ?regs) ?g1), ([] @ t, snd (city_loop rng (zip cities ?regs) ?g1)))"
    and al: "aligned P (fst (city_loop rng (zip cities ?regs) ?g1)) t"
    using city_loop_recording [where P = P and rng = rng, OF P] by blast
  have "transcript rng g_init = t"
    by (simp add: transcript_def generate_def recording_def split_beta Let_def
        run [unfolded recording_def, simplified])
  moreover have "fst (generate rng g_init) = fst (city_loop rng (zip cities ?regs) ?g1)"
    by (simp add: generate_def split_beta Let_def)
  ultimately show ?thesis using al by simp
qed

lemma table_draws:
  assumes P: "\<And>cty yr reg g. P (fst (gen_row rng cty yr reg g)) (row_transcript rng cty yr reg g)"
    and i: "i < length (fst (generate rng g_init))"
  shows "P (fst (generate rng g_init) ! i) (draws_of_row rng g_init i)"
  unfolding draws_of_row_def using aligned_nth [OF generate_recording [where P = P and rng = rng, OF P] i] .

declare str_nat.simps [simp del]

lemma length_years: "length years = 5"
  by (simp add: years_def)

lemma years_explicit: "years = [2018, 2019, 2020, 2021, 2022]"
  unfolding years_def by (simp add: upto.simps)

lemma year_loop_keys:
  "map (\<lambda>r. (city r, year r, region r)) (fst (year_loop rng cty reg yrs g)) = map (\<lambda>yr. (cty, yr, reg)) yrs"
  by (induction yrs arbitrary: g) (simp_all add: split_beta gen_row_keys)

lemma city_loop_keys:
  "map (\<lambda>r. (city r, year r, region r)) (fst (city_loop rng crs g)) =
     concat (map (\<lambda>cr. map (\<lambda>yr. (fst cr, yr, snd cr)) years) crs)"
proof (induction crs arbitrary: g)
  case Nil
  then show ?case by simp
next
  case (Cons cr crs)
  obtain cty reg where cr: "cr = (cty, reg)" by (cases cr)
  show ?case by (simp add: cr split_beta year_loop_keys Cons.IH)
qed

lemma filter_blocks_none:
  "c \<notin> fst ` set crs \<Longrightarrow>
     filter (\<lambda>k. fst k = c) (concat (map (\<lambda>cr. map (\<lambda>yr. (fst cr, yr, snd cr)) yrs) crs)) = []"
  by (induction crs) (auto simp: filter_empty_conv)

lemma filter_blocks:
  "distinct (map fst crs) \<Longrightarrow> i < length crs \<Longrightarrow>
     filter (\<lambda>k. fst k = fst (crs ! i)) (concat (map (\<lambda>cr. map (\<lambda>yr. (fst cr, yr, snd cr)) yrs) crs))
       = map (\<lambda>yr. (fst (crs ! i), yr, snd (crs ! i))) yrs"
proof (induction crs arbitrary: i)
  case Nil
  then show ?case by simp
next
  case (Cons cr crs)
  show ?case
  proof (cases i)
    case 0
    have "fst cr \<notin> fst ` set crs" using Cons.prems(1) by simp
    then show ?thesis using 0 by (simp add: filter_blocks_none)
  next
    case (Suc j)
    then have j: "j < length crs" using Cons.prems(2) by simp
    then have "fst (crs ! j) \<in> fst ` set crs" by simp
    moreover have "fst cr \<notin> fst ` set crs" using Cons.prems(1) by simp
    ultimately have ne: "fst cr \<noteq> fst (crs ! j)" by metis
    have "filter (\<lambda>k. fst k = fst (crs ! j)) (map (\<lambda>yr. (fst cr, yr, snd cr)) yrs) = []"
      using ne by (simp add: filter_empty_conv)
    then show ?thesis using Suc Cons.IH [OF _ j] Cons.prems(1) by simp
  qed
qed

lemma digit_char_inj: "a < 10 \<Longrightarrow> b < 10 \<Longrightarrow> digit_char a = digit_char b \<Longrightarrow> a = b"
proof -
  assume a: "a < 10" and b: "b < 10" and eq: "digit_char a = digit_char b"
  from eq have "of_char (char_of (48 + a) :: char) = (of_char (char_of (48 + b) :: char) :: nat)"
    by (simp add: digit_char_def)
  then have "(48 + a) mod 256 = (48 + b) mod 256" by simp
  with a b show "a = b" by simp
qed

lemma str_nat_nonempty: "str_nat n \<noteq> []"
  by (subst str_nat.simps) simp

lemma str_nat_inj: "str_nat n = str_nat m \<Longrightarrow> n = m"
proof (induction n arbitrary: m rule: str_nat.induct)
  case (1 n)
  show ?case
  proof (cases "n < 10")
    case True
    then have sn: "str_nat n = [digit_char n]" by (subst str_nat.simps) simp
    show ?thesis
    proof (cases "m < 10")
      case True
      then have "str_nat m = [digit_char m]" by (subst str_nat.simps) simp
      with sn "1.prems" \<open>n < 10\<close> True show ?thesis by (auto dest: digit_char_inj)
    next
      case False
      then have "str_nat m = str_nat (m div 10) @ [digit_char (m mod 10)]"
        by (subst str_nat.simps) simp
      with sn "1.prems" have "str_nat (m div 10) = []" by simp
      then show ?thesis using str_nat_nonempty by blast
    qed
  next
    case False
    then have sn: "str_nat n = str_nat (n div 10) @ [digit_char (n mod 10)]"
      by (subst str_nat.simps) simp
    show ?thesis
    proof (cases "m < 10")
      case True
      then have "str_nat m = [digit_char m]" by (subst str_nat.simps) simp
      with sn "1.prems" have "str_nat (n div 10) = []" by simp
      then show ?thesis using str_nat_nonempty by blast
    next
      case mf: False
      then have sm: "str_nat m = str_nat (m div 10) @ [digit_char (m mod 10)]"
        by (subst str_nat.simps) simp
      from sn sm "1.prems" have e1: "str_nat (n div 10) = str_nat (m div 10)"
        and e2: "digit_char (n mod 10) = digit_char (m mod 10)" by simp_all
      from "1.IH" [OF False e1] have d: "n div 10 = m div 10" .
      from digit_char_inj [OF _ _ e2] have r: "n mod 10 = m mod 10" by simp
      from d r show ?thesis by (metis div_mult_mod_eq)
    qed
  qed
qed

lemma length_cities: "length cities = 100"
  by (simp add: cities_def)

lemma distinct_cities: "distinct cities"
  unfolding cities_def
  by (rule iffD2 [OF distinct_map]) (auto simp: inj_on_def dest: str_nat_inj)

lemma length_year_loop: "length (fst (year_loop rng cty reg yrs g)) = length yrs"
  by (induction yrs arbitrary: g) (simp_all add: split_beta)

lemma length_city_loop: "length (fst (city_loop rng crs g)) = 5 * length crs"
  by (induction crs arbitrary: g) (auto simp: split_beta length_year_loop length_years)

lemma generate_table:
  "fst (generate rng g_init) =
     fst (city_loop rng (zip cities (fst (choice rng [East, Central, West] 100 [0.4, 0.3, 0.3] (seed rng 42))))
            (snd (choice rng [East, Central, West] 100 [0.4, 0.3, 0.3] (seed rng 42))))"
  by (simp add: generate_def split_beta Let_def)

lemma length_generate:
  "length (fst (choice rng [East, Central, West] 100 [0.4, 0.3, 0.3] (seed rng 42))) = 100 \<Longrightarrow>
     length (fst (generate rng g_init)) = 500"
  by (simp add: generate_table length_city_loop length_cities)

lemmas row_unfold = row_transcript_def gen_row_def normal_def uniform_def draw_recording split_beta Let_def

lemma uniform_rangeD:
  "uniform_in_range rng \<Longrightarrow> low < high \<Longrightarrow>
     low \<le> fst (draw rng (Uniform low high) g) \<and> fst (draw rng (Uniform low high) g) < high"
  unfolding uniform_in_range_def uniform_def by blast

lemma clip_bounds: "lo \<le> hi \<Longrightarrow> lo \<le> clip x lo hi \<and> clip x lo hi \<le> hi"
  by (simp add: clip_def)

lemma demo_choice_sized: "choice_sized demo_rng"
  by (simp add: choice_sized_def demo_rng_def)

lemma demo_uniform_in_range: "uniform_in_range demo_rng"
proof -
  have "low \<le> low + (high - low) * (real ((3 * g + 1) mod 8) / 8)
        \<and> low + (high - low) * (real ((3 * g + 1) mod 8) / 8) < high"
    if lh: "low < high" for low high :: real and g :: nat
  proof -
    have k: "(3 * g + 1) mod 8 < 8" by simp
    define u where "u = real ((3 * g + 1) mod 8) / 8"
    have u: "0 \<le> u" "u < 1" using k by (simp_all add: u_def)
    have "0 \<le> (high - low) * u" using lh u by simp
    moreover have "(high - low) * u < (high - low) * 1"
      using lh u by (intro mult_strict_left_mono) simp_all
    ultimately show ?thesis unfolding u_def by simp
  qed
  then show ?thesis by (simp add: uniform_in_range_def uniform_def demo_rng_def)
qed

lemma str_nat_1: "str_nat (Suc 0) = ''1''"
  by code_simp

lemma cities_first: "cities = ''City_1'' # tl cities"
proof -
  have "cities \<noteq> []" by (simp add: cities_def)
  moreover have "hd cities = ''City_1''"
    by (simp add: cities_def hd_map str_nat_1)
  ultimately show ?thesis by (metis list.collapse)
qed

lemma generate_first_row:
  assumes ch: "choice rng [East, Central, West] 100 [0.4, 0.3, 0.3] (seed rng 42) = (reg # regs, g1)"
  shows "fst (generate rng g_init) ! 0 = fst (gen_row rng ''City_1'' 2018 reg g1)"
proof -
  have z: "zip cities (reg # regs) = (''City_1'', reg) # zip (tl cities) regs"
    by (subst cities_first) simp
  have "fst (generate rng g_init) = fst (city_loop rng (zip cities (reg # regs)) g1)"
    by (simp only: generate_table ch fst_conv snd_conv)
  then show ?thesis
    by (simp add: z years_explicit split_beta)
qed

lemma generate_first_draws:
  assumes ch: "choice rng [East, Central, West] 100 [0.4, 0.3, 0.3] (seed rng 42) = (reg # regs, g1)"
  shows "draws_of_row rng g_init 0 = row_transcript rng ''City_1'' 2018 reg g1"
proof -
  let ?rec = "recording rng"
  let ?P = "\<lambda>(r::row) (tr::(dist \<times> real) list). True"
  let ?rt = "row_transcript rng ''City_1'' 2018 reg g1"
  let ?g2 = "snd (gen_row rng ''City_1'' 2018 reg g1)"
  have z: "zip cities (reg # regs) = (''City_1'', reg) # zip (tl cities) regs"
    by (subst cities_first) simp
  have y: "years = 2018 # [2019, 2020, 2021, 2022]" by (simp add: years_explicit)
  obtain t2 where yl:
    "year_loop ?rec ''City_1'' reg [2019, 2020, 2021, 2022] ([] @ ?rt, ?g2) =
       (fst (year_loop rng ''City_1'' reg [2019, 2020, 2021, 2022] ?g2), (([] @ ?rt) @ t2,
        snd (year_loop rng ''City_1'' reg [2019, 2020, 2021, 2022] ?g2)))"
    using year_loop_recording [where P = ?P and rng = rng] by blast
  let ?g3 = "snd (year_loop rng ''City_1'' reg [2019, 2020, 2021, 2022] ?g2)"
  obtain t3 where cl:
    "city_loop ?rec (zip (tl cities) regs) (?rt @ t2, ?g3) =
       (fst (city_loop rng (zip (tl cities) regs) ?g3), ((?rt @ t2) @ t3,
        snd (city_loop rng (zip (tl cities) regs) ?g3)))"
    using city_loop_recording [where P = ?P and rng = rng] by blast
  have "year_loop ?rec ''City_1'' reg years ([], g1) =
          (fst (year_loop rng ''City_1'' reg years g1), (?rt @ t2, ?g3))"
    using yl by (simp add: y gen_row_recording split_beta)
  then have "fst (snd (city_loop ?rec (zip cities (reg # regs)) ([], g1))) = ?rt @ t2 @ t3"
    using cl by (simp add: z split_beta)
  moreover have "choice ?rec [East, Central, West] 100 [0.4, 0.3, 0.3] ([], seed rng 42) = (reg # regs, ([], g1))"
    by (simp only: recording_def np_random.simps split_conv ch fst_conv snd_conv)
  then have "transcript rng g_init = fst (snd (city_loop ?rec (zip cities (reg # regs)) ([], g1)))"
    unfolding transcript_def generate_def Let_def
    by (simp only: recording_def np_random.simps split_conv fst_conv snd_conv)
  ultimately show ?thesis
    by (simp add: draws_of_row_def length_row_transcript)
qed

lemma demo_choice:
  "choice demo_rng [East, Central, West] 100 [0.4, 0.3, 0.3] (seed demo_rng 42) =
     (East # map (\<lambda>i. [East, Central, West] ! ((42 + i) mod 3)) [1..<100], 142)"
proof -
  have "[0..<100] = 0 # [1..<100]" by (simp add: upt_conv_Cons del: upt_rec_numeral)
  then show ?thesis by (simp add: demo_rng_def del: upt_rec_numeral)
qed

lemma demo_first_row:
  "fst (generate demo_rng 0) ! 0 =
    \<lparr>gdp_pc = 85000, net_access = 0.8, edu_exp = 20000, med_exp = 10750, urban_ratio = 0.55,
     policy_index = 0.25, infra_score = 56.5, unemp_rate = 0.03,
     city = ''City_1'', year = 2018, region = East, rural_income = 33065, urban_income = 70125\<rparr>"
  unfolding generate_first_row [OF demo_choice]
  by (simp add: gen_row_def normal_def uniform_def clip_def demo_rng_def split_beta Let_def)

lemma demo_first_draws:
  "draws_of_row demo_rng 0 0 =
    [(Normal 80000 5000, 85000), (Normal 0.9 0.1, 0.8), (Normal 15000 2000, 20000),
     (Normal 10000 1500, 10750), (Normal 0.7 0.1, 0.55), (Uniform 0 1, 0.25),
     (Normal 0 5, 0), (Normal 0.08 0.03, 0.02), (Uniform 0.3 0.5, 0.375), (Uniform 0.6 0.9, 0.825)]"
  unfolding generate_first_draws [OF demo_choice]
  by (simp add: row_unfold demo_rng_def)

lemma demo_length: "length (fst (generate demo_rng 0)) = 500"
  by (rule length_generate) (simp add: demo_rng_def)

lemma rows_of_city:
  assumes len: "length regs = length cs" and d: "distinct cs" and i: "i < length cs"
  shows "map (\<lambda>r. (year r, region r)) (filter (\<lambda>r. city r = cs ! i) (fst (city_loop rng (zip cs regs) g)))
           = map (\<lambda>yr. (yr, regs ! i)) years"
proof -
  let ?crs = "zip cs regs"
  let ?key = "\<lambda>r. (city r, year r, region r)"
  let ?tab = "fst (city_loop rng ?crs g)"
  have fsts: "map fst ?crs = cs" using len by simp
  have i': "i < length ?crs" using len i by simp
  have nth: "?crs ! i = (cs ! i, regs ! i)" using len i by simp
  have "map ?key (filter (\<lambda>r. city r = cs ! i) ?tab)
          = filter (\<lambda>k. fst k = cs ! i) (map ?key ?tab)"
    by (simp add: filter_map comp_def)
  also have "\<dots> = filter (\<lambda>k. fst k = fst (?crs ! i))
                     (concat (map (\<lambda>cr. map (\<lambda>yr. (fst cr, yr, snd cr)) years) ?crs))"
    by (simp only: city_loop_keys nth fst_conv)
  also have "\<dots> = map (\<lambda>yr. (fst (?crs ! i), yr, snd (?crs ! i))) years"
    using filter_blocks [of ?crs i years] d fsts i' by simp
  finally have "map snd (map ?key (filter (\<lambda>r. city r = cs ! i) ?tab))
                  = map snd (map (\<lambda>yr. (cs ! i, yr, regs ! i)) years)"
    by (simp only: nth fst_conv snd_conv)
  then show ?thesis by (simp add: comp_def)
qed

lemma cities_of_rows: "r \<in> set (fst (city_loop rng crs g)) \<Longrightarrow> city r \<in> fst ` set crs"
proof -
  assume "r \<in> set (fst (city_loop rng crs g))"
  then have "(city r, year r, region r) \<in> set (map (\<lambda>r. (city r, year r, region r)) (fst (city_loop rng crs g)))"
    by (simp add: image_iff) blast
  then show ?thesis unfolding city_loop_keys by auto
qed

lemma cities_0: "cities ! 0 = ''City_1''"
  by (subst cities_first) simp

lemma cell2_env:
  "fst (cell2 lib df g) =
    (let sp = fst (train_test_split lib (map covs.truncate df) (map rural_income df) 0.2 (Some 0) g);
         sc = scaler_fit lib (fst sp)
     in \<lparr>frames = [map covs.truncate df, fst sp, fst (snd sp)],
         X_all = 0, y_all = map rural_income df, X_train = 1, X_test = 2,
         y_train = fst (snd (snd sp)), y_test = snd (snd (snd sp)),
         scaler = sc,
         X_train_scaled = scaler_transform lib sc (fst sp),
         X_test_scaled = scaler_transform lib sc (fst (snd sp))\<rparr>)"
  by (simp add: cell2_def alloc_def frame_def split_beta Let_def)

lemma cell6_sim:
  "X_test e < length (frames e) \<Longrightarrow>
   fst (cell6 lib e g) =
    (let fr = map (\<lambda>c. c\<lparr>policy_index := policy_index c + 0.2\<rparr>) (frames e ! X_test e);
         sa = length (frames e);
         ss = scaler_transform lib (scaler e) fr;
         mf = fst (fit lib (RandomForestRegressor None) (X_train_scaled e) (y_train e) g)
     in env.extend (e\<lparr>frames := frames e @ [fr]\<rparr>)
          (sim.fields sa ss mf (predict lib mf (X_test_scaled e)) (predict lib mf ss)
             (mean_difference lib (predict lib mf ss) (predict lib mf (X_test_scaled e)))))"
  by (simp add: cell6_def df_copy_def iadd_policy_index_def alloc_def frame_def split_beta Let_def nth_append)

lemma cell2_wf:
  "X_test (fst (cell2 lib df g)) < length (frames (fst (cell2 lib df g)))"
  by (simp add: cell2_env Let_def)

lemmas demo_unfold = demo_lib_def demo_df_def demo_df2_def demo_row_def covs.defs row.defs



lemma split_selectsD:
  assumes "split_selects lib" and "length ys = length xs"
  shows "set (zip (fst (fst (train_test_split lib xs ys ts rs g)))
                  (fst (snd (snd (fst (train_test_split lib xs ys ts rs g)))))) \<subseteq> set (zip xs ys)"
    and "set (zip (fst (snd (fst (train_test_split lib xs ys ts rs g))))
                  (snd (snd (snd (fst (train_test_split lib xs ys ts rs g)))))) \<subseteq> set (zip xs ys)"
    and "length (fst (snd (snd (fst (train_test_split lib xs ys ts rs g)))))
           = length (fst (fst (train_test_split lib xs ys ts rs g)))"
    and "length (snd (snd (snd (fst (train_test_split lib xs ys ts rs g)))))
           = length (fst (snd (fst (train_test_split lib xs ys ts rs g))))"
  using assms unfolding split_selects_def
  by (auto simp: split_beta dest!: spec [of _ xs] spec [of _ ys] spec [of _ ts] spec [of _ rs] spec [of _ g])


lemma demo_split_selects: "split_selects demo_lib"
proof -
  have "set (zip (drop n xs) (drop n ys)) \<subseteq> set (zip xs ys)" for n and xs :: "covs list" and ys :: "real list"
    by (simp add: drop_zip [symmetric] set_drop_subset)
  moreover have "set (zip (take n xs) (take n ys)) \<subseteq> set (zip xs ys)" for n and xs :: "covs list" and ys :: "real list"
    by (simp add: take_zip [symmetric] set_take_subset)
  ultimately show ?thesis
    by (simp add: split_selects_def demo_lib_def)
qed

lemma split_trainD:
  assumes "split_selects lib" and "length ys = length xs"
  shows "set (fst (fst (train_test_split lib xs ys ts rs g))) \<subseteq> set xs"
    and "set (fst (snd (fst (train_test_split lib xs ys ts rs g)))) \<subseteq> set xs"
proof -
  note sp = split_selectsD [OF assms, of ts rs g]
  let ?xtr = "fst (fst (train_test_split lib xs ys ts rs g))"
  let ?ytr = "fst (snd (snd (fst (train_test_split lib xs ys ts rs g))))"
  let ?xte = "fst (snd (fst (train_test_split lib xs ys ts rs g)))"
  let ?yte = "snd (snd (snd (fst (train_test_split lib xs ys ts rs g))))"
  have "set ?xtr = fst ` set (zip ?xtr ?ytr)"
    using sp(3) by (metis map_fst_zip set_map)
  also have "\<dots> \<subseteq> fst ` set (zip xs ys)" using sp(1) by blast
  also have "\<dots> \<subseteq> set xs" by (auto dest: set_zip_leftD)
  finally show "set ?xtr \<subseteq> set xs" .
  have "set ?xte = fst ` set (zip ?xte ?yte)"
    using sp(4) by (metis map_fst_zip set_map)
  also have "\<dots> \<subseteq> fst ` set (zip xs ys)" using sp(2) by blast
  also have "\<dots> \<subseteq> set xs" by (auto dest: set_zip_leftD)
  finally show "set ?xte \<subseteq> set xs" .
qed

lemma policy_index_truncate: "policy_index (covs.truncate r) = policy_index r"
  by (simp add: covs.defs)










lemmas demo_fallible_unfold = demo_fallible_def sklearn.defs fallible.defs




section \<open>The generated table\<close>

text \<open>
  Claim C1. Provided \<open>np.random.choice\<close> returns as many labels as asked for, the table has
  exactly 500 rows; the 100 city names are distinct and every row carries one of them; the
  rows of each city are exactly five, their years are 2018 to 2022 in turn, and all five
  carry the one region label drawn for that city.
\<close>

theorem table_shape:
  assumes sized: "choice_sized rng"
  shows "length (fst (generate rng g_init)) = 500 \<and>
         length cities = 100 \<and> distinct cities \<and>
         (\<forall>r \<in> set (fst (generate rng g_init)). city r \<in> set cities) \<and>
         (\<forall>i<100.
            map (\<lambda>r. (year r, region r)) (filter (\<lambda>r. city r = cities ! i) (fst (generate rng g_init)))
              = map (\<lambda>yr. (yr, fst (choice rng [East, Central, West] 100 [0.4, 0.3, 0.3] (seed rng 42)) ! i))
                  [2018, 2019, 2020, 2021, 2022])"
proof -
  let ?regs = "fst (choice rng [East, Central, West] 100 [0.4, 0.3, 0.3] (seed rng 42))"
  have len: "length ?regs = 100" using sized unfolding choice_sized_def by blast
  have l2: "length ?regs = length cities" using len by (simp only: length_cities)
  have a: "length (fst (generate rng g_init)) = 500" using len by (rule length_generate)
  have b: "city r \<in> set cities" if "r \<in> set (fst (generate rng g_init))" for r
  proof -
    from that have "city r \<in> fst ` set (zip cities ?regs)"
      unfolding generate_table by (rule cities_of_rows)
    then show ?thesis by (auto dest: set_zip_leftD)
  qed
  have c: "map (\<lambda>r. (year r, region r)) (filter (\<lambda>r. city r = cities ! i) (fst (generate rng g_init)))
              = map (\<lambda>yr. (yr, ?regs ! i)) [2018, 2019, 2020, 2021, 2022]" if "i < 100" for i
  proof -
    from that have "i < length cities" by (simp only: length_cities)
    from rows_of_city [OF l2 distinct_cities this] show ?thesis
      unfolding generate_table by (simp only: years_explicit)
  qed
  from a b c show ?thesis by (simp only: length_cities distinct_cities) blast
qed

text \<open>The stand-in generator: 500 rows, and the five rows of the first city.\<close>

theorem table_shape_witness:
  "length (fst (generate demo_rng 0)) = 500 \<and>
   map (\<lambda>r. (year r, region r)) (filter (\<lambda>r. city r = ''City_1'') (fst (generate demo_rng 0)))
     = [(2018, East), (2019, East), (2020, East), (2021, East), (2022, East)]"
proof -
  note shape = table_shape [OF demo_choice_sized, of 0]
  have "(0::nat) < 100" by simp
  with shape have
    "map (\<lambda>r. (year r, region r)) (filter (\<lambda>r. city r = cities ! 0) (fst (generate demo_rng 0)))
       = map (\<lambda>yr. (yr, fst (choice demo_rng [East, Central, West] 100 [0.4, 0.3, 0.3] (seed demo_rng 42)) ! 0))
           [2018, 2019, 2020, 2021, 2022]"
    by blast
  then have
    "map (\<lambda>r. (year r, region r)) (filter (\<lambda>r. city r = ''City_1'') (fst (generate demo_rng 0)))
       = [(2018, East), (2019, East), (2020, East), (2021, East), (2022, East)]"
    unfolding demo_choice cities_0 by simp
  with shape show ?thesis by blast
qed

text \<open>
  Claim C4. Whatever the generator returns for the normal draws, every row of the table has
  \<open>net_access\<close> in \<open>[0.5, 1.0]\<close>, \<open>urban_ratio\<close> in \<open>[0.3, 0.95]\<close> and \<open>unemp_rate\<close> in
  \<open>[0.03, 0.15]\<close>.
\<close>

theorem clipped_covariates_in_bounds:
  "r \<in> set (fst (generate rng g_init)) \<Longrightarrow>
     0.5 \<le> net_access r \<and> net_access r \<le> 1.0 \<and>
     0.3 \<le> urban_ratio r \<and> urban_ratio r \<le> 0.95 \<and>
     0.03 \<le> unemp_rate r \<and> unemp_rate r \<le> 0.15"
proof -
  assume "r \<in> set (fst (generate rng g_init))"
  then obtain i where i: "i < length (fst (generate rng g_init))" and r: "r = fst (generate rng g_init) ! i"
    by (auto simp: in_set_conv_nth)
  let ?P = "\<lambda>(r::row) (tr::(dist \<times> real) list). 0.5 \<le> net_access r \<and> net_access r \<le> 1.0 \<and>
     0.3 \<le> urban_ratio r \<and> urban_ratio r \<le> 0.95 \<and>
     0.03 \<le> unemp_rate r \<and> unemp_rate r \<le> 0.15"
  have "?P (fst (gen_row rng cty yr reg g)) (row_transcript rng cty yr reg g)" for cty yr reg g
    using clip_bounds [of "0.5" "1.0"] clip_bounds [of "0.3" "0.95"] clip_bounds [of "0.03" "0.15"]
    by (simp add: gen_row_def split_beta Let_def)
  from table_draws [where P = ?P and rng = rng, OF this i] show ?thesis by (simp add: r)
qed

text \<open>The first row under the stand-in generator; its \<open>unemp_rate\<close> was clipped up to 0.03.\<close>

theorem clipped_covariates_in_bounds_witness:
  "fst (generate demo_rng 0) ! 0 \<in> set (fst (generate demo_rng 0)) \<and>
   net_access (fst (generate demo_rng 0) ! 0) = 0.8 \<and>
   urban_ratio (fst (generate demo_rng 0) ! 0) = 0.55 \<and>
   unemp_rate (fst (generate demo_rng 0) ! 0) = 0.03 \<and>
   0.5 \<le> net_access (fst (generate demo_rng 0) ! 0) \<and>
   net_access (fst (generate demo_rng 0) ! 0) \<le> 1.0 \<and>
   0.3 \<le> urban_ratio (fst (generate demo_rng 0) ! 0) \<and>
   urban_ratio (fst (generate demo_rng 0) ! 0) \<le> 0.95 \<and>
   0.03 \<le> unemp_rate (fst (generate demo_rng 0) ! 0) \<and>
   unemp_rate (fst (generate demo_rng 0) ! 0) \<le> 0.15"
proof -
  have m: "fst (generate demo_rng 0) ! 0 \<in> set (fst (generate demo_rng 0))"
    by (rule nth_mem) (simp add: demo_length)
  have v: "net_access (fst (generate demo_rng 0) ! 0) = 0.8 \<and>
   urban_ratio (fst (generate demo_rng 0) ! 0) = 0.55 \<and>
   unemp_rate (fst (generate demo_rng 0) ! 0) = 0.03"
    unfolding demo_first_row by simp
  from m v clipped_covariates_in_bounds [OF m] show ?thesis by blast
qed

text \<open>
  Claim C5, as the code has it. The first eight draws of every row are, in order: normal
  draws for \<open>gdp_pc\<close> (mean 80000, 50000 or 30000 by region, deviation 5000), \<open>net_access\<close>
  and, after two more, \<open>urban_ratio\<close>, whose means depend on whether the region is East;
  normal draws for \<open>edu_exp\<close>, \<open>med_exp\<close> and \<open>unemp_rate\<close> whose means are the same in every
  region; a uniform draw on \<open>[0, 1)\<close> for \<open>policy_index\<close>; and a normal noise term of mean 0.
  \<open>infra_score\<close> is not drawn: it is computed from the row's \<open>net_access\<close> and \<open>urban_ratio\<close>
  and the noise term. Three of the draws are clipped before they are stored.
\<close>

theorem covariate_draws:
  "i < length (fst (generate rng g_init)) \<Longrightarrow>
    (let r = fst (generate rng g_init) ! i; d = draws_of_row rng g_init i in
      map fst (take 8 d) =
        [Normal (if region r = East then 80000 else if region r = Central then 50000 else 30000) 5000,
         Normal (if region r = East then 0.9 else 0.75) 0.1,
         Normal 15000 2000,
         Normal 10000 1500,
         Normal (if region r = East then 0.7 else 0.6) 0.1,
         Uniform 0 1,
         Normal 0 5,
         Normal 0.08 0.03] \<and>
      gdp_pc r = snd (d ! 0) \<and>
      net_access r = clip (snd (d ! 1)) 0.5 1.0 \<and>
      edu_exp r = snd (d ! 2) \<and>
      med_exp r = snd (d ! 3) \<and>
      urban_ratio r = clip (snd (d ! 4)) 0.3 0.95 \<and>
      policy_index r = snd (d ! 5) \<and>
      infra_score r = net_access r * 50 + urban_ratio r * 30 + snd (d ! 6) \<and>
      unemp_rate r = clip (snd (d ! 7)) 0.03 0.15)"
proof -
  assume i: "i < length (fst (generate rng g_init))"
  let ?P = "\<lambda>(r::row) (d::(dist \<times> real) list).
      map fst (take 8 d) =
        [Normal (if region r = East then 80000 else if region r = Central then 50000 else 30000) 5000,
         Normal (if region r = East then 0.9 else 0.75) 0.1,
         Normal 15000 2000,
         Normal 10000 1500,
         Normal (if region r = East then 0.7 else 0.6) 0.1,
         Uniform 0 1,
         Normal 0 5,
         Normal 0.08 0.03] \<and>
      gdp_pc r = snd (d ! 0) \<and>
      net_access r = clip (snd (d ! 1)) 0.5 1.0 \<and>
      edu_exp r = snd (d ! 2) \<and>
      med_exp r = snd (d ! 3) \<and>
      urban_ratio r = clip (snd (d ! 4)) 0.3 0.95 \<and>
      policy_index r = snd (d ! 5) \<and>
      infra_score r = net_access r * 50 + urban_ratio r * 30 + snd (d ! 6) \<and>
      unemp_rate r = clip (snd (d ! 7)) 0.03 0.15"
  have "?P (fst (gen_row rng cty yr reg g)) (row_transcript rng cty yr reg g)" for cty yr reg g
    by (simp add: row_unfold)
  from table_draws [where P = ?P and rng = rng, OF this i] show ?thesis by (simp add: Let_def)
qed

text \<open>The first row under the stand-in generator.\<close>

theorem covariate_draws_witness:
  "0 < length (fst (generate demo_rng 0)) \<and>
   region (fst (generate demo_rng 0) ! 0) = East \<and>
   map fst (take 8 (draws_of_row demo_rng 0 0)) =
     [Normal 80000 5000, Normal 0.9 0.1, Normal 15000 2000, Normal 10000 1500,
      Normal 0.7 0.1, Uniform 0 1, Normal 0 5, Normal 0.08 0.03] \<and>
   gdp_pc (fst (generate demo_rng 0) ! 0) = 85000 \<and>
   policy_index (fst (generate demo_rng 0) ! 0) = 0.25"
proof -
  have l: "0 < length (fst (generate demo_rng 0))" by (simp add: demo_length)
  have e: "region (fst (generate demo_rng 0) ! 0) = East" unfolding demo_first_row by simp
  from covariate_draws [OF l] l e show ?thesis
    by (simp add: Let_def demo_first_draws)
qed

text \<open>
  Claim C5 as stated fails: the request for \<open>gdp_pc\<close> is a region-conditioned normal draw,
  but the one for \<open>policy_index\<close> (draw 5) is uniform, and the one for \<open>edu_exp\<close> (draw 2) has
  the same mean in East and West.
\<close>

theorem covariate_draws_counterexample:
  "region_conditioned_normal (demo_request 0) \<and>
   \<not> region_conditioned_normal (demo_request 5) \<and> demo_request 5 East = Uniform 0 1 \<and>
   \<not> region_conditioned_normal (demo_request 2) \<and>
   demo_request 2 East = Normal 15000 2000 \<and> demo_request 2 West = Normal 15000 2000"
  by (simp add: region_conditioned_normal_def demo_request_def row_unfold)

text \<open>
  Claim C6. For every row, draw 8 is a uniform draw on \<open>[0.3, 0.5)\<close> and draw 9 a uniform
  draw on \<open>[0.6, 0.9)\<close>, both among the ten draws that belong to this row alone;
  \<open>rural_income\<close> is \<open>gdp_pc\<close> times the first plus 5000 times \<open>policy_index\<close> minus 2000 times
  \<open>unemp_rate\<close>, and \<open>urban_income\<close> is \<open>gdp_pc\<close> times the second. When the generator keeps
  uniform draws within their interval, the two factors lie in the intervals named.
\<close>

theorem income_formulas:
  "i < length (fst (generate rng g_init)) \<Longrightarrow>
    (let r = fst (generate rng g_init) ! i; d = draws_of_row rng g_init i in
      length d = 10 \<and>
      fst (d ! 8) = Uniform 0.3 0.5 \<and>
      fst (d ! 9) = Uniform 0.6 0.9 \<and>
      rural_income r = gdp_pc r * snd (d ! 8) + 5000 * policy_index r - 2000 * unemp_rate r \<and>
      urban_income r = gdp_pc r * snd (d ! 9) \<and>
      (uniform_in_range rng \<longrightarrow>
         0.3 \<le> snd (d ! 8) \<and> snd (d ! 8) < 0.5 \<and> 0.6 \<le> snd (d ! 9) \<and> snd (d ! 9) < 0.9))"
proof -
  assume i: "i < length (fst (generate rng g_init))"
  let ?P = "\<lambda>(r::row) (d::(dist \<times> real) list).
      length d = 10 \<and>
      fst (d ! 8) = Uniform 0.3 0.5 \<and>
      fst (d ! 9) = Uniform 0.6 0.9 \<and>
      rural_income r = gdp_pc r * snd (d ! 8) + 5000 * policy_index r - 2000 * unemp_rate r \<and>
      urban_income r = gdp_pc r * snd (d ! 9) \<and>
      (uniform_in_range rng \<longrightarrow>
         0.3 \<le> snd (d ! 8) \<and> snd (d ! 8) < 0.5 \<and> 0.6 \<le> snd (d ! 9) \<and> snd (d ! 9) < 0.9)"
  have "?P (fst (gen_row rng cty yr reg g)) (row_transcript rng cty yr reg g)" for cty yr reg g
    using uniform_rangeD [of rng "0.3" "0.5"] uniform_rangeD [of rng "0.6" "0.9"]
    by (simp add: row_unfold)
  from table_draws [where P = ?P and rng = rng, OF this i] show ?thesis by (simp add: Let_def)
qed

text \<open>The first row under the stand-in generator.\<close>

theorem income_formulas_witness:
  "0 < length (fst (generate demo_rng 0)) \<and> uniform_in_range demo_rng \<and>
   draws_of_row demo_rng 0 0 ! 8 = (Uniform 0.3 0.5, 0.375) \<and>
   draws_of_row demo_rng 0 0 ! 9 = (Uniform 0.6 0.9, 0.825) \<and>
   rural_income (fst (generate demo_rng 0) ! 0) = 85000 * 0.375 + 5000 * 0.25 - 2000 * 0.03 \<and>
   urban_income (fst (generate demo_rng 0) ! 0) = 85000 * 0.825"
proof -
  have l: "0 < length (fst (generate demo_rng 0))" by (simp add: demo_length)
  have v: "gdp_pc (fst (generate demo_rng 0) ! 0) = 85000 \<and>
           policy_index (fst (generate demo_rng 0) ! 0) = 0.25 \<and>
           unemp_rate (fst (generate demo_rng 0) ! 0) = 0.03"
    unfolding demo_first_row by simp
  from income_formulas [OF l] l v demo_uniform_in_range show ?thesis
    by (simp add: Let_def demo_first_draws)
qed

text \<open>
  Claim C7. For every row, draw 6 is a normal draw of mean 0 and deviation 5, and
  \<open>infra_score\<close> is 50 times the row's \<open>net_access\<close> plus 30 times its \<open>urban_ratio\<close> plus that
  draw, where \<open>net_access\<close> and \<open>urban_ratio\<close> are the clipped values stored in the row.
\<close>

theorem infra_score_formula:
  "i < length (fst (generate rng g_init)) \<Longrightarrow>
    (let r = fst (generate rng g_init) ! i; d = draws_of_row rng g_init i in
      fst (d ! 6) = Normal 0 5 \<and>
      infra_score r = 50 * net_access r + 30 * urban_ratio r + snd (d ! 6) \<and>
      net_access r = clip (snd (d ! 1)) 0.5 1.0 \<and>
      urban_ratio r = clip (snd (d ! 4)) 0.3 0.95)"
proof -
  assume i: "i < length (fst (generate rng g_init))"
  let ?P = "\<lambda>(r::row) (d::(dist \<times> real) list).
      fst (d ! 6) = Normal 0 5 \<and>
      infra_score r = 50 * net_access r + 30 * urban_ratio r + snd (d ! 6) \<and>
      net_access r = clip (snd (d ! 1)) 0.5 1.0 \<and>
      urban_ratio r = clip (snd (d ! 4)) 0.3 0.95"
  have "?P (fst (gen_row rng cty yr reg g)) (row_transcript rng cty yr reg g)" for cty yr reg g
    by (simp add: row_unfold)
  from table_draws [where P = ?P and rng = rng, OF this i] show ?thesis by (simp add: Let_def)
qed

text \<open>The first row under the stand-in generator.\<close>

theorem infra_score_formula_witness:
  "0 < length (fst (generate demo_rng 0)) \<and>
   draws_of_row demo_rng 0 0 ! 6 = (Normal 0 5, 0) \<and>
   net_access (fst (generate demo_rng 0) ! 0) = 0.8 \<and>
   urban_ratio (fst (generate demo_rng 0) ! 0) = 0.55 \<and>
   infra_score (fst (generate demo_rng 0) ! 0) = 50 * 0.8 + 30 * 0.55 + 0"
proof -
  have l: "0 < length (fst (generate demo_rng 0))" by (simp add: demo_length)
  from infra_score_formula [OF l] l show ?thesis
    by (simp add: Let_def demo_first_draws clip_def)
qed

text \<open>
  Claim C10. When the generator keeps uniform draws within their interval, draw 5 of every
  row is a uniform draw on \<open>[0, 1)\<close> and \<open>policy_index\<close> is its value, unclipped, so it lies
  in \<open>[0, 1)\<close>. When moreover the split returns rows of the frame it was given, every
  training row has \<open>policy_index\<close> in \<open>[0, 1)\<close>, while every row of the counterfactual table has
  it in \<open>[0.2, 1.2)\<close>.
\<close>

theorem policy_index_range:
  assumes uni: "uniform_in_range rng" and sel: "split_selects lib"
  shows
   "(\<forall>i < length (fst (generate rng g_init)).
       fst (draws_of_row rng g_init i ! 5) = Uniform 0 1 \<and>
       policy_index (fst (generate rng g_init) ! i) = snd (draws_of_row rng g_init i ! 5) \<and>
       0 \<le> policy_index (fst (generate rng g_init) ! i) \<and>
       policy_index (fst (generate rng g_init) ! i) < 1) \<and>
    (let e = fst (cell2 lib (fst (generate rng g_init)) g); s = fst (cell6 lib e g') in
       (\<forall>c \<in> set (frame (frames e) (X_train e)). 0 \<le> policy_index c \<and> policy_index c < 1) \<and>
       (\<forall>c \<in> set (frame (frames s) (X_sim s)). 0.2 \<le> policy_index c \<and> policy_index c < 1.2))"
proof -
  let ?tab = "fst (generate rng g_init)"
  let ?P = "\<lambda>(r::row) (d::(dist \<times> real) list).
       fst (d ! 5) = Uniform 0 1 \<and> policy_index r = snd (d ! 5) \<and>
       0 \<le> policy_index r \<and> policy_index r < 1"
  have row: "?P (fst (gen_row rng cty yr reg g)) (row_transcript rng cty yr reg g)" for cty yr reg g
    using uniform_rangeD [OF uni, of 0 1] by (simp add: row_unfold)
  have a: "?P (?tab ! i) (draws_of_row rng g_init i)" if "i < length ?tab" for i
    using table_draws [where P = ?P and rng = rng, OF row that] .
  have rng01: "0 \<le> policy_index c \<and> policy_index c < 1" if "c \<in> set (map covs.truncate ?tab)" for c
  proof -
    from that obtain i where "i < length ?tab" and "c = covs.truncate (?tab ! i)"
      by (auto simp: in_set_conv_nth)
    with a [of i] show ?thesis by (simp add: policy_index_truncate)
  qed
  let ?e = "fst (cell2 lib ?tab g)"
  let ?s = "fst (cell6 lib ?e g')"
  have len: "length (map rural_income ?tab) = length (map covs.truncate ?tab)" by simp
  note sub = split_trainD [OF sel len, of "0.2" "Some 0" g]
  have tr: "frame (frames ?e) (X_train ?e)
              = fst (fst (train_test_split lib (map covs.truncate ?tab) (map rural_income ?tab) 0.2 (Some 0) g))"
    by (simp add: cell2_env Let_def frame_def)
  have te: "frame (frames ?e) (X_test ?e)
              = fst (snd (fst (train_test_split lib (map covs.truncate ?tab) (map rural_income ?tab) 0.2 (Some 0) g)))"
    by (simp add: cell2_env Let_def frame_def)
  have b: "0 \<le> policy_index c \<and> policy_index c < 1" if "c \<in> set (frame (frames ?e) (X_train ?e))" for c
    using that sub(1) rng01 unfolding tr by blast
  have sim: "frame (frames ?s) (X_sim ?s)
               = map (\<lambda>c. c\<lparr>policy_index := policy_index c + 0.2\<rparr>) (frame (frames ?e) (X_test ?e))"
    by (simp add: cell6_sim [OF cell2_wf] Let_def frame_def env.defs sim.defs)
  have c: "0.2 \<le> policy_index c \<and> policy_index c < 1.2" if "c \<in> set (frame (frames ?s) (X_sim ?s))" for c
  proof -
    from that obtain c0 where c0: "c0 \<in> set (frame (frames ?e) (X_test ?e))"
      and c: "c = c0\<lparr>policy_index := policy_index c0 + 0.2\<rparr>"
      unfolding sim by auto
    from c0 sub(2) rng01 have "0 \<le> policy_index c0 \<and> policy_index c0 < 1" unfolding te by blast
    then show ?thesis by (simp add: c)
  qed
  from a b c show ?thesis unfolding Let_def by blast
qed

text \<open>The first row, and the first counterfactual row, under the stand-in libraries.\<close>

theorem policy_index_range_witness:
  "uniform_in_range demo_rng \<and> split_selects demo_lib \<and>
   0 < length (fst (generate demo_rng 0)) \<and>
   draws_of_row demo_rng 0 0 ! 5 = (Uniform 0 1, 0.25) \<and>
   policy_index (fst (generate demo_rng 0) ! 0) = 0.25 \<and>
   frame (frames (fst (cell6 demo_lib (fst (cell2 demo_lib (fst (generate demo_rng 0)) 0)) 0)))
         (X_sim (fst (cell6 demo_lib (fst (cell2 demo_lib (fst (generate demo_rng 0)) 0)) 0))) ! 0
     \<in> set (frame (frames (fst (cell6 demo_lib (fst (cell2 demo_lib (fst (generate demo_rng 0)) 0)) 0)))
         (X_sim (fst (cell6 demo_lib (fst (cell2 demo_lib (fst (generate demo_rng 0)) 0)) 0)))) \<and>
   policy_index (frame (frames (fst (cell6 demo_lib (fst (cell2 demo_lib (fst (generate demo_rng 0)) 0)) 0)))
         (X_sim (fst (cell6 demo_lib (fst (cell2 demo_lib (fst (generate demo_rng 0)) 0)) 0))) ! 0) = 0.45"
proof -
  let ?tab = "fst (generate demo_rng 0)"
  let ?e = "fst (cell2 demo_lib ?tab 0)"
  let ?s = "fst (cell6 demo_lib ?e 0)"
  note r = policy_index_range [OF demo_uniform_in_range demo_split_selects, of 0 0 0, unfolded Let_def]
  have l: "0 < length ?tab" by (simp add: demo_length)
  have p: "policy_index (?tab ! 0) = 0.25" unfolding demo_first_row by simp
  have d: "draws_of_row demo_rng 0 0 ! 5 = (Uniform 0 1, 0.25)" unfolding demo_first_draws by simp
  have fr: "frame (frames ?s) (X_sim ?s)
              = map (\<lambda>c. c\<lparr>policy_index := policy_index c + 0.2\<rparr>) (take 100 (map covs.truncate ?tab))"
    by (simp add: cell6_sim [OF cell2_wf] Let_def)
       (simp add: cell2_env Let_def frame_def env.defs sim.defs demo_lib_def demo_length)
  have n: "frame (frames ?s) (X_sim ?s) ! 0 \<in> set (frame (frames ?s) (X_sim ?s))"
    by (rule nth_mem) (simp add: fr demo_length)
  have v: "policy_index (frame (frames ?s) (X_sim ?s) ! 0) = 0.45"
    by (simp add: fr demo_length policy_index_truncate p)
  from r l have "0 \<le> policy_index (?tab ! 0) \<and> policy_index (?tab ! 0) < 1" by blast
  with demo_uniform_in_range demo_split_selects l d p n v show ?thesis by blast
qed

section \<open>Standardisation\<close>

text \<open>
  Claim C2. The fitted scaler is \<open>fit\<close> of the training frame and of nothing else: two runs
  of the second cell whose training frames agree fit the same scaler, whatever their test
  frames are; and both scaled arrays are transforms by that one scaler, of the training
  frame and of the test frame.
\<close>

theorem scaler_fitted_on_training_only:
  "frame (frames (fst (cell2 lib df1 g1))) (X_train (fst (cell2 lib df1 g1)))
     = frame (frames (fst (cell2 lib df2 g2))) (X_train (fst (cell2 lib df2 g2))) \<Longrightarrow>
   scaler (fst (cell2 lib df1 g1)) = scaler (fst (cell2 lib df2 g2)) \<and>
   scaler (fst (cell2 lib df1 g1))
     = scaler_fit lib (frame (frames (fst (cell2 lib df1 g1))) (X_train (fst (cell2 lib df1 g1)))) \<and>
   X_train_scaled (fst (cell2 lib df1 g1))
     = scaler_transform lib (scaler (fst (cell2 lib df1 g1)))
         (frame (frames (fst (cell2 lib df1 g1))) (X_train (fst (cell2 lib df1 g1)))) \<and>
   X_test_scaled (fst (cell2 lib df1 g1))
     = scaler_transform lib (scaler (fst (cell2 lib df1 g1)))
         (frame (frames (fst (cell2 lib df1 g1))) (X_test (fst (cell2 lib df1 g1))))"
  by (simp add: cell2_env Let_def frame_def)

text \<open>Two tables that differ in the held-out row only.\<close>

theorem scaler_fitted_on_training_only_witness:
  "frame (frames (fst (cell2 demo_lib demo_df 0))) (X_train (fst (cell2 demo_lib demo_df 0)))
     = frame (frames (fst (cell2 demo_lib demo_df2 0))) (X_train (fst (cell2 demo_lib demo_df2 0))) \<and>
   map policy_index (frame (frames (fst (cell2 demo_lib demo_df 0))) (X_test (fst (cell2 demo_lib demo_df 0)))) = [0.5] \<and>
   map policy_index (frame (frames (fst (cell2 demo_lib demo_df2 0))) (X_test (fst (cell2 demo_lib demo_df2 0)))) = [0.125] \<and>
   scaler (fst (cell2 demo_lib demo_df 0)) = 0.5 \<and>
   scaler (fst (cell2 demo_lib demo_df2 0)) = 0.5 \<and>
   X_test_scaled (fst (cell2 demo_lib demo_df 0)) = [[50000, 0]] \<and>
   X_test_scaled (fst (cell2 demo_lib demo_df2 0)) = [[50000, - 0.375]]"
proof -
  have same: "frame (frames (fst (cell2 demo_lib demo_df 0))) (X_train (fst (cell2 demo_lib demo_df 0)))
     = frame (frames (fst (cell2 demo_lib demo_df2 0))) (X_train (fst (cell2 demo_lib demo_df2 0)))"
    by (simp add: cell2_env Let_def frame_def demo_unfold)
  have vals: "map policy_index (frame (frames (fst (cell2 demo_lib demo_df 0))) (X_test (fst (cell2 demo_lib demo_df 0)))) = [0.5] \<and>
   map policy_index (frame (frames (fst (cell2 demo_lib demo_df2 0))) (X_test (fst (cell2 demo_lib demo_df2 0)))) = [0.125] \<and>
   scaler (fst (cell2 demo_lib demo_df 0)) = 0.5 \<and>
   X_test_scaled (fst (cell2 demo_lib demo_df 0)) = [[50000, 0]] \<and>
   X_test_scaled (fst (cell2 demo_lib demo_df2 0)) = [[50000, - 0.375]]"
    by (simp add: cell2_env Let_def frame_def demo_unfold)
  from scaler_fitted_on_training_only [OF same] same vals show ?thesis by simp
qed

section \<open>The policy counterfactual\<close>

text \<open>
  Claim C3. After the sixth cell, \<open>X_sim\<close> is a new object whose rows are the test rows with
  \<open>policy_index\<close> larger by 0.2 and every other column as it was; \<open>X_test\<close> is still bound
  to the same object, whose contents are unchanged, and so is \<open>X_train\<close>; the scaler is the
  one fitted on the training frame in the second cell, and \<open>X_sim_scaled\<close> is its transform
  of \<open>X_sim\<close>.
\<close>

theorem policy_counterfactual_frame:
  "(let e = fst (cell2 lib df g0); s = fst (cell6 lib e g) in
      frame (frames s) (X_sim s)
        = map (\<lambda>c. c\<lparr>policy_index := policy_index c + 0.2\<rparr>) (frame (frames e) (X_test e)) \<and>
      map policy_index (frame (frames s) (X_sim s))
        = map (\<lambda>c. policy_index c + 0.2) (frame (frames e) (X_test e)) \<and>
      X_test s = X_test e \<and> X_sim s \<noteq> X_test s \<and>
      frame (frames s) (X_test s) = frame (frames e) (X_test e) \<and>
      X_train s = X_train e \<and>
      frame (frames s) (X_train s) = frame (frames e) (X_train e) \<and>
      scaler s = scaler e \<and>
      scaler e = scaler_fit lib (frame (frames e) (X_train e)) \<and>
      X_sim_scaled s = scaler_transform lib (scaler e) (frame (frames s) (X_sim s)))"
  by (simp add: cell6_sim [OF cell2_wf] Let_def)
     (simp add: cell2_env Let_def frame_def env.defs sim.defs comp_def)

text \<open>The five-row table under the stand-in library: 0.5 becomes 0.7 in the copy only.\<close>

theorem policy_counterfactual_frame_witness:
  "map policy_index (frame (frames (fst (cell2 demo_lib demo_df 0))) (X_test (fst (cell2 demo_lib demo_df 0)))) = [0.5] \<and>
   map policy_index (frame (frames (fst (cell6 demo_lib (fst (cell2 demo_lib demo_df 0)) 0)))
         (X_sim (fst (cell6 demo_lib (fst (cell2 demo_lib demo_df 0)) 0)))) = [0.7] \<and>
   map policy_index (frame (frames (fst (cell6 demo_lib (fst (cell2 demo_lib demo_df 0)) 0)))
         (X_test (fst (cell6 demo_lib (fst (cell2 demo_lib demo_df 0)) 0)))) = [0.5] \<and>
   X_sim (fst (cell6 demo_lib (fst (cell2 demo_lib demo_df 0)) 0))
     \<noteq> X_test (fst (cell6 demo_lib (fst (cell2 demo_lib demo_df 0)) 0)) \<and>
   scaler (fst (cell6 demo_lib (fst (cell2 demo_lib demo_df 0)) 0)) = 0.5"
proof -
  let ?e = "fst (cell2 demo_lib demo_df 0)"
  let ?s = "fst (cell6 demo_lib ?e 0)"
  note fr = policy_counterfactual_frame [of demo_lib demo_df 0 0, unfolded Let_def]
  have xt: "map policy_index (frame (frames ?e) (X_test ?e)) = [0.5]"
    by (simp add: cell2_env Let_def frame_def demo_unfold)
  have sc: "scaler ?e = 0.5"
    by (simp add: cell2_env Let_def frame_def demo_unfold)
  from fr have "map policy_index (frame (frames ?s) (X_sim ?s))
                  = map (\<lambda>c. policy_index c + 0.2) (frame (frames ?e) (X_test ?e))"
    by blast
  also have "\<dots> = map (\<lambda>v. v + 0.2) (map policy_index (frame (frames ?e) (X_test ?e)))"
    by (simp add: comp_def)
  also have "\<dots> = [0.7]" unfolding xt by simp
  finally have a: "map policy_index (frame (frames ?s) (X_sim ?s)) = [0.7]" .
  from fr have "frame (frames ?s) (X_test ?s) = frame (frames ?e) (X_test ?e)" by blast
  with xt have b: "map policy_index (frame (frames ?s) (X_test ?s)) = [0.5]" by simp
  from fr have c: "X_sim ?s \<noteq> X_test ?s" by blast
  from fr have "scaler ?s = scaler ?e" by blast
  with sc have d: "scaler ?s = 0.5" by simp
  from xt a b c d show ?thesis by blast
qed

section \<open>Determinism of the seeded path\<close>

text \<open>
  Claim C8. Two runs of the notebook up to the benchmark, started with any two states of
  the global generator and any two clocks, report the same RMSE and the same R-squared for Ridge
  regression; the Ridge report is the first one, computed on the table generated under
  seed 42 and split under seed 0.
\<close>

theorem ridge_report_deterministic:
  "rmse (hd (benchmark_run rng lib g1 t1)) = rmse (hd (benchmark_run rng lib g2 t2)) \<and>
   r2 (hd (benchmark_run rng lib g1 t1)) = r2 (hd (benchmark_run rng lib g2 t2)) \<and>
   hd (benchmark_run rng lib g1 t1) =
     fst (train_and_evaluate lib (fst (cell2 lib (fst (generate rng g1)) (snd (generate rng g1)))) Ridge
            (snd (cell2 lib (fst (generate rng g1)) (snd (generate rng g1))), t1))"
  by (simp add: benchmark_run_def cell3_def train_and_evaluate_def generate_def split_beta Let_def)

section \<open>Regional models\<close>



text \<open>The loop on a small table with two rows in each region, under the stand-in library.\<close>

lemma regional_loop_two_rows_each:
  "cell5 demo_fallible demo_df_pairs 0 = ([(East, - 3999999), (West, - 8999999)], Inr 4)"
  by (simp add: cell5_def demo_df_pairs_def demo_df_def demo_row_def)
     (simp add: demo_fallible_unfold demo_lib_def to_array_def Let_def)

text \<open>
  With a region of a single row the split raises: the loop prints the lines of the regions
  before it and ends with the exception.
\<close>

lemma regional_loop_aborts_on_one_row:
  "cell5 demo_fallible demo_df 0 = ([(East, - 3999999), (West, - 8999999)], Inl ValueError)"
  by (simp add: cell5_def demo_df_def demo_row_def)
     (simp add: demo_fallible_unfold demo_lib_def to_array_def Let_def)

end
